theory Spec2Isabelle
  imports Complex_Main "HOL-Library.Word" "HOL-Library.Monad_Syntax"
begin

section \<open>Python values handed to the Environment constructor\<close>

text \<open>
  The constructor of \<^verbatim>\<open>Environment\<close> receives classes (\<^verbatim>\<open>rewardClass\<close>,
  \<^verbatim>\<open>legalActClass\<close>, \<^verbatim>\<open>actionClass\<close>, \<^verbatim>\<open>observationClass\<close>, ...) and objects
  (\<^verbatim>\<open>backend\<close>, \<^verbatim>\<open>chronics_handler\<close>) and tests them with \<^verbatim>\<open>isinstance\<close> and
  \<^verbatim>\<open>issubclass\<close>. A value is therefore modelled by what these tests can see: whether
  it is a class or an instance, and from which grid2op base classes its class derives.
\<close>

datatype pyclass =
    BaseReward | Backend | BaseRules | BaseAction | BaseObservation
  | ChronicsHandler | BaseVoltageController

text \<open>
  The only piece of backend state \<^verbatim>\<open>Environment.py\<close> reads or writes is the loaded
  flag. It writes the attribute \<^verbatim>\<open>_is_loaded\<close> in \<^verbatim>\<open>get_kwargs\<close> and goes through
  \<^verbatim>\<open>is_loaded\<close> in \<^verbatim>\<open>_init_backend\<close>. The field \<open>calls\<close> records the methods
  invoked on the instance, in order: the loading methods of the construction, the
  reporting methods read by an observation, and \<^verbatim>\<open>runpf\<close>, the solve.
\<close>

datatype backend_call =
    B_set_env_name | B_load_grid | B_load_redispacthing_data | B_load_storage_data
  | B_load_grid_layout | B_assert_grid_correct | B_set_thermal_limit
  | B_assert_grid_correct_after_powerflow
  | B_get_line_status | B_get_topo_vect | B_generators_info | B_loads_info
  | B_lines_or_info | B_lines_ex_info | B_get_relative_flow | B_get_theta
  | B_runpf

record backend_obj =
  priv_is_loaded :: bool
  calls :: "backend_call list"

text \<open>
  Modelled from the spec: the class \<^verbatim>\<open>grid2op.Backend.Backend\<close> is not among the
  sources (only the package's \<^verbatim>\<open>__init__\<close> is). The spec speaks of one loaded state of
  a backend ("reusing a loaded backend"), so \<^verbatim>\<open>is_loaded\<close> is the property that reads
  and writes the attribute \<^verbatim>\<open>_is_loaded\<close>.
\<close>

definition is_loaded :: "backend_obj \<Rightarrow> bool" where
  "is_loaded b = priv_is_loaded b"

definition set_is_loaded :: "backend_obj \<Rightarrow> backend_obj" where
  "set_is_loaded b = b\<lparr>priv_is_loaded := True\<rparr>"

definition bk_call :: "backend_call \<Rightarrow> backend_obj \<Rightarrow> backend_obj" where
  "bk_call c b = b\<lparr>calls := calls b @ [c]\<rparr>"

datatype pyval =
    PyClass "pyclass list"     \<comment> \<open>a class, with the grid2op base classes it derives from\<close>
  | PyObject "pyclass list"    \<comment> \<open>an instance of a class deriving from these bases (no backend)\<close>
  | PyBackend backend_obj      \<comment> \<open>an instance of a subclass of \<^verbatim>\<open>Backend\<close>, with its state\<close>
  | PyNone
  | PyOpaque                   \<comment> \<open>any other value: a path, a number, a dictionary of parameters\<close>

fun isinstance_type :: "pyval \<Rightarrow> bool" where
  "isinstance_type (PyClass _) = True"
| "isinstance_type _ = False"

text \<open>\<^verbatim>\<open>issubclass(v, B)\<close>, called in the source only after \<^verbatim>\<open>isinstance(v, type)\<close>.\<close>

fun issubclass :: "pyval \<Rightarrow> pyclass \<Rightarrow> bool" where
  "issubclass (PyClass bases) B = (B \<in> set bases)"
| "issubclass _ B = False"

fun isinstance :: "pyval \<Rightarrow> pyclass \<Rightarrow> bool" where
  "isinstance (PyBackend _) B = (B = Backend)"
| "isinstance (PyObject bases) B = (B \<in> set bases \<and> B \<noteq> Backend)"
| "isinstance _ B = False"

section \<open>Exceptions\<close>

datatype msg =
    rewardClass_not_a_type | rewardClass_not_derived
  | backend_not_derived | same_backend_twice
  | legalActClass_not_a_type | legalActClass_not_derived
  | actionClass_not_a_type | actionClass_not_derived
  | observationClass_not_a_type | observationClass_not_derived
  | chronics_handler_not_derived | voltagecontrolClass_not_derived
  | powerflow_diverges_at_iteration_0

datatype exn = Grid2OpException msg | EnvError msg | TypeError | OverflowError
  | ZeroDivisionError | IndexError | ValueError

text \<open>
  Modelled from the spec: the module \<^verbatim>\<open>grid2op.Exceptions\<close> is not among the sources.
  Section 7 of the spec files the reuse of a loaded backend under the fatal errors raised
  to the caller of the constructor; \<^verbatim>\<open>EnvError\<close> is taken as a subclass of
  \<^verbatim>\<open>Grid2OpException\<close>, the builtin exceptions of Python are not.
\<close>

fun is_Grid2OpException :: "exn \<Rightarrow> bool" where
  "is_Grid2OpException (Grid2OpException _) = True"
| "is_Grid2OpException (EnvError _) = True"
| "is_Grid2OpException _ = False"

section \<open>Environment construction\<close>

record ctor_args =
  chronics_handler :: pyval
  backend :: pyval
  actionClass :: pyval
  observationClass :: pyval
  rewardClass :: pyval
  legalActClass :: pyval
  voltagecontrolerClass :: pyval
  thermal_limit_a :: pyval

text \<open>
  What \<^verbatim>\<open>_init_backend\<close> does besides checking its arguments, in the order of the
  source: calls on the backend (recorded in the backend itself), on the chronics handler
  and the reward helper, and the first \<^verbatim>\<open>self.step(do_nothing)\<close>.
\<close>

datatype event =
    Backend_call backend_call
  | Backend_marked_loaded
  | Chronics_initialize | Chronics_check_validity
  | Reward_initialize
  | Env_step

record environment =
  self_backend :: backend_obj
  self_chronics_handler :: pyval
  self_rewardClass :: pyval
  self_legalActClass :: pyval
  self_actionClass_orig :: pyval
  self_observationClass_orig :: pyval
  self_voltagecontrolerClass :: pyval
  self_thermal_limit_a :: pyval
  self_done :: bool

text \<open>
  \<^verbatim>\<open>Environment.__init__\<close>: \<^verbatim>\<open>_init_backend\<close> (lines 144-332), with the attributes
  that \<^verbatim>\<open>__init__\<close> and \<^verbatim>\<open>BaseEnv.__init__\<close> copy from the arguments. The result
  pairs the outcome (the exception raised, or the environment built) with the events that
  happened before it. \<open>fail_to_start\<close> is the flag returned by the first step, which
  belongs to \<^verbatim>\<open>BaseEnv\<close>. Statements that neither raise nor call a collaborator
  (attribute set-up, warnings, creation of the action and observation spaces, of the
  opponent and of the attention budget) leave no trace here. Without a thermal limit
  among the arguments the environment takes the array \<^verbatim>\<open>backend.thermal_limit_a\<close>
  (lines 200-201). \<^verbatim>\<open>_compat_glop_version\<close> has its default \<^verbatim>\<open>None\<close>, as in a
  dictionary of \<^verbatim>\<open>get_kwargs\<close>.
\<close>

definition load_calls :: "backend_call list" where
  "load_calls = [B_set_env_name, B_load_grid, B_load_redispacthing_data, B_load_storage_data,
                 B_load_grid_layout]"

definition thermal_calls :: "pyval \<Rightarrow> backend_call list" where
  "thermal_calls v = (if v = PyNone then [] else [B_set_thermal_limit])"

definition init_backend :: "bool \<Rightarrow> ctor_args \<Rightarrow> (exn + environment) \<times> event list" where
  "init_backend fail_to_start a =
    (if \<not> isinstance_type (rewardClass a) then (Inl (Grid2OpException rewardClass_not_a_type), [])
     else if \<not> issubclass (rewardClass a) BaseReward then
       (Inl (Grid2OpException rewardClass_not_derived), [])
     else (case backend a of
        PyBackend b \<Rightarrow>
          if is_loaded b then (Inl (EnvError same_backend_twice), [])
          else
            let b1 = set_is_loaded (fold bk_call load_calls b);
                b2 = fold bk_call ([B_assert_grid_correct] @ thermal_calls (thermal_limit_a a)
                        @ [B_generators_info]) b1;
                ev1 = map Backend_call load_calls @ [Backend_marked_loaded]
                        @ map Backend_call ([B_assert_grid_correct]
                        @ thermal_calls (thermal_limit_a a) @ [B_generators_info])
            in
            if \<not> isinstance_type (legalActClass a) then
              (Inl (Grid2OpException legalActClass_not_a_type), ev1)
            else if \<not> issubclass (legalActClass a) BaseRules then
              (Inl (Grid2OpException legalActClass_not_derived), ev1)
            else if \<not> isinstance_type (actionClass a) then
              (Inl (Grid2OpException actionClass_not_a_type), ev1)
            else if \<not> issubclass (actionClass a) BaseAction then
              (Inl (Grid2OpException actionClass_not_derived), ev1)
            else if \<not> isinstance_type (observationClass a) then
              (Inl (Grid2OpException observationClass_not_a_type), ev1)
            else if \<not> issubclass (observationClass a) BaseObservation then
              (Inl (Grid2OpException observationClass_not_derived), ev1)
            else if \<not> isinstance (chronics_handler a) ChronicsHandler then
              (Inl (Grid2OpException chronics_handler_not_derived), ev1)
            else
              let ev2 = ev1 @ [Chronics_initialize, Chronics_check_validity, Reward_initialize]
              in
              if \<not> isinstance_type (voltagecontrolerClass a) then (Inl TypeError, ev2)
              else if \<not> issubclass (voltagecontrolerClass a) BaseVoltageController then
                (Inl (Grid2OpException voltagecontrolClass_not_derived), ev2)
              else
                let ev3 = ev2 @ [Env_step] in
                if fail_to_start then
                  (Inl (Grid2OpException powerflow_diverges_at_iteration_0), ev3)
                else
                  (Inr \<lparr> self_backend = bk_call B_assert_grid_correct_after_powerflow b2,
                         self_chronics_handler = chronics_handler a,
                         self_rewardClass = rewardClass a,
                         self_legalActClass = legalActClass a,
                         self_actionClass_orig = actionClass a,
                         self_observationClass_orig = observationClass a,
                         self_voltagecontrolerClass = voltagecontrolerClass a,
                         self_thermal_limit_a =
                           (if thermal_limit_a a = PyNone then PyOpaque
                            else thermal_limit_a a),
                         self_done = False \<rparr>,
                   ev3 @ [Backend_call B_assert_grid_correct_after_powerflow])
      | _ \<Rightarrow> (Inl (Grid2OpException backend_not_derived), [])))"

text \<open>The defaults of the constructor's signature (lines 63-94).\<close>

definition default_args :: "pyval \<Rightarrow> pyval \<Rightarrow> ctor_args" where
  "default_args ch bk =
     \<lparr> chronics_handler = ch, backend = bk,
       actionClass = PyClass [BaseAction],
       observationClass = PyClass [BaseObservation],
       rewardClass = PyClass [BaseReward],
       legalActClass = PyClass [BaseRules],
       voltagecontrolerClass = PyClass [BaseVoltageController],
       thermal_limit_a = PyNone \<rparr>"


section \<open>Rebuilding an environment: get_kwargs\<close>

text \<open>
  \<^verbatim>\<open>Environment.get_kwargs\<close> (lines 894-928) fills a dictionary, key by key.
  \<^verbatim>\<open>Backend.copy\<close> is not among the sources and is a parameter. A deep copy of the
  chronics handler is an instance of the same class.
\<close>

definition get_kwargs ::
    "(backend_obj \<Rightarrow> backend_obj) \<Rightarrow> environment \<Rightarrow> bool \<Rightarrow> (string \<rightharpoonup> pyval)" where
  "get_kwargs copy_backend self with_backend =
    (let res = Map.empty;
         res = res(''init_grid_path'' \<mapsto> PyOpaque);
         res = res(''chronics_handler'' \<mapsto> self_chronics_handler self);
         res = (if with_backend
                then res(''backend'' \<mapsto>
                       PyBackend ((copy_backend (self_backend self))\<lparr>priv_is_loaded := False\<rparr>))
                else res);
         res = res(''parameters'' \<mapsto> PyOpaque);
         res = res(''names_chronics_to_backend'' \<mapsto> PyOpaque);
         res = res(''actionClass'' \<mapsto> self_actionClass_orig self);
         res = res(''observationClass'' \<mapsto> self_observationClass_orig self);
         res = res(''rewardClass'' \<mapsto> self_rewardClass self);
         res = res(''legalActClass'' \<mapsto> self_legalActClass self);
         res = res(''epsilon_poly'' \<mapsto> PyOpaque);
         res = res(''tol_poly'' \<mapsto> PyOpaque);
         res = res(''thermal_limit_a'' \<mapsto> self_thermal_limit_a self);
         res = res(''voltagecontrolerClass'' \<mapsto> self_voltagecontrolerClass self);
         res = res(''other_rewards'' \<mapsto> PyOpaque);
         res = res(''name'' \<mapsto> PyOpaque);
         res = res(''_raw_backend_class'' \<mapsto> PyOpaque);
         res = res(''with_forecast'' \<mapsto> PyOpaque);
         res = res(''opponent_action_class'' \<mapsto> PyOpaque);
         res = res(''opponent_class'' \<mapsto> PyOpaque);
         res = res(''opponent_init_budget'' \<mapsto> PyOpaque);
         res = res(''opponent_budget_per_ts'' \<mapsto> PyOpaque);
         res = res(''opponent_budget_class'' \<mapsto> PyOpaque);
         res = res(''opponent_attack_duration'' \<mapsto> PyOpaque);
         res = res(''opponent_attack_cooldown'' \<mapsto> PyOpaque);
         res = res(''kwargs_opponent'' \<mapsto> PyOpaque);
         res = res(''attention_budget_cls'' \<mapsto> PyOpaque);
         res = res(''kwargs_attention_budget'' \<mapsto> PyOpaque);
         res = res(''has_attention_budget'' \<mapsto> PyOpaque);
         res = res(''_read_from_local_dir'' \<mapsto> PyOpaque)
     in res)"

text \<open>
  \<^verbatim>\<open>Environment(**kwargs)\<close>: Python binds the dictionary to the parameters of
  \<^verbatim>\<open>__init__\<close> (lines 63-94). A key that is no parameter, or a missing parameter
  without a default, is a \<^verbatim>\<open>TypeError\<close> before the body runs; a missing optional
  parameter takes its default.
\<close>

definition parameter_names :: "string list" where
  "parameter_names =
     [''init_grid_path'', ''chronics_handler'', ''backend'', ''parameters'', ''name'',
      ''names_chronics_to_backend'', ''actionClass'', ''observationClass'', ''rewardClass'',
      ''legalActClass'', ''voltagecontrolerClass'', ''other_rewards'', ''thermal_limit_a'',
      ''with_forecast'', ''epsilon_poly'', ''tol_poly'', ''opponent_action_class'',
      ''opponent_class'', ''opponent_init_budget'', ''opponent_budget_per_ts'',
      ''opponent_budget_class'', ''opponent_attack_duration'', ''opponent_attack_cooldown'',
      ''kwargs_opponent'', ''attention_budget_cls'', ''kwargs_attention_budget'',
      ''has_attention_budget'', ''_raw_backend_class'', ''_compat_glop_version'',
      ''_read_from_local_dir'']"

definition kw_default :: "(string \<rightharpoonup> pyval) \<Rightarrow> string \<Rightarrow> pyval \<Rightarrow> pyval" where
  "kw_default kw k d = (case kw k of None \<Rightarrow> d | Some v \<Rightarrow> v)"

definition Environment_new ::
    "bool \<Rightarrow> (string \<rightharpoonup> pyval) \<Rightarrow> (exn + environment) \<times> event list" where
  "Environment_new fail_to_start kw =
    (if \<not> dom kw \<subseteq> set parameter_names then (Inl TypeError, [])
     else (case (kw ''init_grid_path'', kw ''chronics_handler'', kw ''backend'',
                 kw ''parameters'') of
        (Some _, Some ch, Some bk, Some _) \<Rightarrow>
          init_backend fail_to_start
            \<lparr> chronics_handler = ch, backend = bk,
              actionClass = kw_default kw ''actionClass'' (actionClass (default_args ch bk)),
              observationClass =
                kw_default kw ''observationClass'' (observationClass (default_args ch bk)),
              rewardClass = kw_default kw ''rewardClass'' (rewardClass (default_args ch bk)),
              legalActClass =
                kw_default kw ''legalActClass'' (legalActClass (default_args ch bk)),
              voltagecontrolerClass =
                kw_default kw ''voltagecontrolerClass''
                  (voltagecontrolerClass (default_args ch bk)),
              thermal_limit_a = kw_default kw ''thermal_limit_a'' PyNone \<rparr>
      | _ \<Rightarrow> (Inl TypeError, [])))"

section \<open>Episode length\<close>

text \<open>
  \<^verbatim>\<open>dt_int\<close> is NumPy's 32-bit signed integer (\<^verbatim>\<open>grid2op.dtypes\<close> is not among the
  sources; the docstring of \<^verbatim>\<open>max_episode_duration\<close> names \<^verbatim>\<open>np.int32\<close>). The value
  reported by the chronics handler is a Python integer. \<^verbatim>\<open>dt_int(v)\<close> converts it as
  NumPy 1.x does: through a C \<^verbatim>\<open>long\<close> (64 bits), which raises \<^verbatim>\<open>OverflowError\<close>
  beyond its range, and then by truncation to 32 bits, which wraps around. (NumPy 2 raises
  \<^verbatim>\<open>OverflowError\<close> for every value outside the 32-bit range; on the 32-bit range the
  two agree.)
\<close>

definition dt_int :: "int \<Rightarrow> exn + 32 word" where
  "dt_int v = (if - (2 ^ 63) \<le> v \<and> v < 2 ^ 63 then Inr (word_of_int v) else Inl OverflowError)"

definition iinfo_dt_int_max :: "32 word" where
  "iinfo_dt_int_max = 2147483647"

text \<open>
  \<^verbatim>\<open>Environment.max_episode_duration\<close> (lines 334-347); \<open>reported\<close> is the result of
  \<^verbatim>\<open>self.chronics_handler.max_episode_duration()\<close>.
\<close>

definition max_episode_duration :: "int \<Rightarrow> exn + 32 word" where
  "max_episode_duration reported =
     (case dt_int reported of
        Inl e \<Rightarrow> Inl e
      | Inr tmp \<Rightarrow> Inr (if sint tmp < 0 then iinfo_dt_int_max else tmp))"

section \<open>Observation assembly\<close>

text \<open>
  Floating-point arrays are lists of reals: the theorems below are about which values are
  copied where, not about rounding. A forecast row is a time stamp with a dictionary of
  injections, kept as an association list in insertion order.
\<close>

type_synonym injection = "(string \<times> real list) list"

record datetime =
  dt_year :: int
  dt_month :: int
  dt_day :: int
  dt_hour :: int
  dt_minute :: int
  dt_weekday :: int

text \<open>The attributes of an \<^verbatim>\<open>EssentialObservation\<close> that \<^verbatim>\<open>update\<close> assigns.\<close>

record observation =
  current_step :: int
  max_step :: "32 word"
  year :: int
  month :: int
  day :: int
  hour_of_day :: int
  minute_of_hour :: int
  day_of_week :: int
  timestep_overflow :: "int list"
  line_status :: "bool list"
  topo_vect :: "int list"
  gen_p :: "real list"
  gen_q :: "real list"
  gen_v :: "real list"
  load_p :: "real list"
  load_q :: "real list"
  load_v :: "real list"
  p_or :: "real list"
  q_or :: "real list"
  v_or :: "real list"
  a_or :: "real list"
  p_ex :: "real list"
  q_ex :: "real list"
  v_ex :: "real list"
  a_ex :: "real list"
  forecasted_inj :: "(datetime \<times> injection) list"
  forecasted_grid :: "unit option list"
  rho :: "real list"
  time_before_cooldown_line :: "int list"
  time_before_cooldown_sub :: "int list"
  thermal_limit :: "real list"
  support_theta :: bool
  theta_or :: "real list"
  theta_ex :: "real list"
  load_theta :: "real list"
  gen_theta :: "real list"
  storage_theta :: "real list"

text \<open>
  What the reporting methods of \<^verbatim>\<open>env.backend\<close> return, and the attributes of the
  environment and of its chronics handler that \<^verbatim>\<open>update\<close> reads.
\<close>

record backend_report =
  get_line_status :: "bool list"
  get_topo_vect :: "int list"
  generators_info :: "real list \<times> real list \<times> real list"
  loads_info :: "real list \<times> real list \<times> real list"
  lines_or_info :: "real list \<times> real list \<times> real list \<times> real list"
  lines_ex_info :: "real list \<times> real list \<times> real list \<times> real list"
  get_relative_flow :: "real list"
  can_output_theta :: bool
  get_theta :: "real list \<times> real list \<times> real list \<times> real list \<times> real list"

record env_state =
  nb_time_step :: int
  time_stamp :: datetime
  env_timestep_overflow :: "int list"
  times_before_line_status_actionable :: "int list"
  times_before_topology_actionable :: "int list"
  get_thermal_limit :: "real list"
  env_backend :: backend_report
  chronics_max_episode_duration :: int
  chronics_forecasts :: "(datetime \<times> injection) list"

text \<open>
  \<^verbatim>\<open>a[:] = b\<close> on one-dimensional arrays: the elements of \<open>b\<close> are copied into
  \<open>a\<close>, whose length stays. \<open>b\<close> must have the length of \<open>a\<close> or a single
  element, which is then broadcast; otherwise NumPy raises \<^verbatim>\<open>ValueError\<close>
  (\<open>None\<close>).
\<close>

definition np_assign :: "'a list \<Rightarrow> 'a list \<Rightarrow> 'a list option" where
  "np_assign a b =
     (if length b = length a then Some b
      else if length b = 1 then Some (replicate (length a) (hd b))
      else None)"

text \<open>
  Modelled from the spec: \<^verbatim>\<open>BaseObservation.get_time_stamp\<close> is not among the sources;
  the time stamp of an observation is read off its time fields.
\<close>

definition get_time_stamp :: "observation \<Rightarrow> datetime" where
  "get_time_stamp self =
     \<lparr> dt_year = year self, dt_month = month self, dt_day = day self,
       dt_hour = hour_of_day self, dt_minute = minute_of_hour self,
       dt_weekday = day_of_week self \<rparr>"

text \<open>
  \<^verbatim>\<open>EssentialObservation.update\<close> (lines 143-198), one definition for each block of the
  method. \<open>None\<close> stands for an exception. The method starts with
  \<^verbatim>\<open>self._reset_matrices()\<close> and \<^verbatim>\<open>self.reset()\<close>, which belong to
  \<^verbatim>\<open>BaseObservation\<close> and are the parameter \<open>reset_obs\<close>. The components of a
  time stamp (a year, a month, ...) are within the range of \<^verbatim>\<open>dt_int\<close>, so their
  conversion is left out.
\<close>

definition update_counter_and_time :: "env_state \<Rightarrow> observation \<Rightarrow> observation option" where
  "update_counter_and_time env self =
     (case max_episode_duration (chronics_max_episode_duration env) of
        Inl e \<Rightarrow> None
      | Inr m \<Rightarrow>
          Some (self\<lparr> current_step := nb_time_step env,
                      max_step := m,
                      year := dt_year (time_stamp env),
                      month := dt_month (time_stamp env),
                      day := dt_day (time_stamp env),
                      hour_of_day := dt_hour (time_stamp env),
                      minute_of_hour := dt_minute (time_stamp env),
                      day_of_week := dt_weekday (time_stamp env) \<rparr>))"

definition update_topology :: "env_state \<Rightarrow> observation \<Rightarrow> observation option" where
  "update_topology env self = do {
     x1 \<leftarrow> np_assign (timestep_overflow self) (env_timestep_overflow env);
     x2 \<leftarrow> np_assign (line_status self) (get_line_status (env_backend env));
     x3 \<leftarrow> np_assign (topo_vect self) (get_topo_vect (env_backend env));
     Some (self\<lparr> timestep_overflow := x1, line_status := x2, topo_vect := x3 \<rparr>)
   }"

definition update_generators :: "env_state \<Rightarrow> observation \<Rightarrow> observation option" where
  "update_generators env self =
     (case generators_info (env_backend env) of (p, q, v) \<Rightarrow> do {
        x1 \<leftarrow> np_assign (gen_p self) p;
        x2 \<leftarrow> np_assign (gen_q self) q;
        x3 \<leftarrow> np_assign (gen_v self) v;
        Some (self\<lparr> gen_p := x1, gen_q := x2, gen_v := x3 \<rparr>)
      })"

definition update_loads :: "env_state \<Rightarrow> observation \<Rightarrow> observation option" where
  "update_loads env self =
     (case loads_info (env_backend env) of (p, q, v) \<Rightarrow> do {
        x1 \<leftarrow> np_assign (load_p self) p;
        x2 \<leftarrow> np_assign (load_q self) q;
        x3 \<leftarrow> np_assign (load_v self) v;
        Some (self\<lparr> load_p := x1, load_q := x2, load_v := x3 \<rparr>)
      })"

definition update_lines_or :: "env_state \<Rightarrow> observation \<Rightarrow> observation option" where
  "update_lines_or env self =
     (case lines_or_info (env_backend env) of (p, q, v, a) \<Rightarrow> do {
        x1 \<leftarrow> np_assign (p_or self) p;
        x2 \<leftarrow> np_assign (q_or self) q;
        x3 \<leftarrow> np_assign (v_or self) v;
        x4 \<leftarrow> np_assign (a_or self) a;
        Some (self\<lparr> p_or := x1, q_or := x2, v_or := x3, a_or := x4 \<rparr>)
      })"

definition update_lines_ex :: "env_state \<Rightarrow> observation \<Rightarrow> observation option" where
  "update_lines_ex env self =
     (case lines_ex_info (env_backend env) of (p, q, v, a) \<Rightarrow> do {
        x1 \<leftarrow> np_assign (p_ex self) p;
        x2 \<leftarrow> np_assign (q_ex self) q;
        x3 \<leftarrow> np_assign (v_ex self) v;
        x4 \<leftarrow> np_assign (a_ex self) a;
        Some (self\<lparr> p_ex := x1, q_ex := x2, v_ex := x3, a_ex := x4 \<rparr>)
      })"

text \<open>
  The forecast block (lines 172-185): the first row is built from the injections just
  read (\<^verbatim>\<open>1.0 * self.load_p\<close> and so on), the rows of
  \<^verbatim>\<open>env.chronics_handler.forecasts()\<close> are appended, and the forecasted grids are all
  \<^verbatim>\<open>None\<close>.
\<close>

definition update_forecast :: "env_state \<Rightarrow> observation \<Rightarrow> observation" where
  "update_forecast env self =
     (let dict = [(''load_p'', map ((*) 1) (load_p self)),
                   (''load_q'', map ((*) 1) (load_q self)),
                   (''prod_p'', map ((*) 1) (gen_p self)),
                   (''prod_v'', map ((*) 1) (gen_v self))];
          timestamp = get_time_stamp self;
          inj = [(timestamp, dict)] @ chronics_forecasts env
      in self\<lparr> forecasted_inj := inj, forecasted_grid := map (\<lambda>_. None) inj \<rparr>)"

definition update_flow_and_cooldown :: "env_state \<Rightarrow> observation \<Rightarrow> observation option" where
  "update_flow_and_cooldown env self = do {
     x1 \<leftarrow> np_assign (rho self) (get_relative_flow (env_backend env));
     x2 \<leftarrow> np_assign (time_before_cooldown_line self)
            (times_before_line_status_actionable env);
     x3 \<leftarrow> np_assign (time_before_cooldown_sub self) (times_before_topology_actionable env);
     x4 \<leftarrow> np_assign (thermal_limit self) (get_thermal_limit env);
     Some (self\<lparr> rho := x1, time_before_cooldown_line := x2, time_before_cooldown_sub := x3,
                 thermal_limit := x4 \<rparr>)
   }"

definition update_theta :: "env_state \<Rightarrow> observation \<Rightarrow> observation option" where
  "update_theta env self =
     (if can_output_theta (env_backend env) then
        (case get_theta (env_backend env) of (t1, t2, t3, t4, t5) \<Rightarrow> do {
           x1 \<leftarrow> np_assign (theta_or self) t1;
           x2 \<leftarrow> np_assign (theta_ex self) t2;
           x3 \<leftarrow> np_assign (load_theta self) t3;
           x4 \<leftarrow> np_assign (gen_theta self) t4;
           x5 \<leftarrow> np_assign (storage_theta self) t5;
           Some (self\<lparr> support_theta := True, theta_or := x1, theta_ex := x2,
                       load_theta := x3, gen_theta := x4, storage_theta := x5 \<rparr>)
         })
      else Some self)"

text \<open>The backend methods that \<^verbatim>\<open>update\<close> calls, in the order of the source.\<close>

definition update_backend_calls :: "env_state \<Rightarrow> backend_call list" where
  "update_backend_calls env =
     [B_get_line_status, B_get_topo_vect, B_generators_info, B_loads_info, B_lines_or_info,
      B_lines_ex_info, B_get_relative_flow]
     @ (if can_output_theta (env_backend env) then [B_get_theta] else [])"

definition update ::
    "(observation \<Rightarrow> observation) \<Rightarrow> env_state \<Rightarrow> bool \<Rightarrow> observation
       \<Rightarrow> (observation \<times> backend_call list) option" where
  "update reset_obs env with_forecast self0 = do {
     s1 \<leftarrow> update_counter_and_time env (reset_obs self0);
     s2 \<leftarrow> update_topology env s1;
     s3 \<leftarrow> update_generators env s2;
     s4 \<leftarrow> update_loads env s3;
     s5 \<leftarrow> update_lines_or env s4;
     s6 \<leftarrow> update_lines_ex env s5;
     let s7 = (if with_forecast then update_forecast env s6 else s6);
     s8 \<leftarrow> update_flow_and_cooldown env s7;
     s9 \<leftarrow> update_theta env s8;
     Some (s9, update_backend_calls env)
   }"

text \<open>
  Modelled from the spec: the constructor of an observation belongs to
  \<^verbatim>\<open>BaseObservation\<close>, which is not among the sources. Section 4.4 describes a
  fixed-schema snapshot: an observation that has not been filled yet has arrays of the
  sizes of the grid, and no forecast.
\<close>

definition blank_observation :: "nat \<Rightarrow> nat \<Rightarrow> nat \<Rightarrow> nat \<Rightarrow> nat \<Rightarrow> nat \<Rightarrow> observation" where
  "blank_observation n_line n_sub n_gen n_load n_storage dim_topo =
     \<lparr> current_step = 0, max_step = 0,
       year = 0, month = 0, day = 0, hour_of_day = 0, minute_of_hour = 0, day_of_week = 0,
       timestep_overflow = replicate n_line 0,
       line_status = replicate n_line True,
       topo_vect = replicate dim_topo 0,
       gen_p = replicate n_gen 0, gen_q = replicate n_gen 0, gen_v = replicate n_gen 0,
       load_p = replicate n_load 0, load_q = replicate n_load 0, load_v = replicate n_load 0,
       p_or = replicate n_line 0, q_or = replicate n_line 0, v_or = replicate n_line 0,
       a_or = replicate n_line 0,
       p_ex = replicate n_line 0, q_ex = replicate n_line 0, v_ex = replicate n_line 0,
       a_ex = replicate n_line 0,
       forecasted_inj = [], forecasted_grid = [],
       rho = replicate n_line 0,
       time_before_cooldown_line = replicate n_line 0,
       time_before_cooldown_sub = replicate n_sub 0,
       thermal_limit = replicate n_line 0,
       support_theta = False,
       theta_or = replicate n_line 0, theta_ex = replicate n_line 0,
       load_theta = replicate n_load 0, gen_theta = replicate n_gen 0,
       storage_theta = replicate n_storage 0 \<rparr>"

text \<open>A grid with two lines, one of them disconnected, one generator and one load.\<close>

definition sample_backend :: backend_report where
  "sample_backend =
     \<lparr> get_line_status = [True, False],
       get_topo_vect = [1, 1, 1, -1, -1, 1],
       generators_info = ([80], [10], [142]),
       loads_info = ([78], [9], [138]),
       lines_or_info = ([80, 0], [10, 0], [142, 0], [300, 0]),
       lines_ex_info = ([-78, 0], [-9, 0], [138, 0], [305, 0]),
       get_relative_flow = [3 / 4, 0],
       can_output_theta = False,
       get_theta = ([], [], [], [], []) \<rparr>"

definition sample_env :: env_state where
  "sample_env =
     \<lparr> nb_time_step = 3,
       time_stamp = \<lparr> dt_year = 2019, dt_month = 1, dt_day = 6, dt_hour = 0, dt_minute = 15,
                      dt_weekday = 6 \<rparr>,
       env_timestep_overflow = [0, 0],
       times_before_line_status_actionable = [0, 2],
       times_before_topology_actionable = [0, 0],
       get_thermal_limit = [400, 400],
       env_backend = sample_backend,
       chronics_max_episode_duration = 288,
       chronics_forecasts =
         [(\<lparr> dt_year = 2019, dt_month = 1, dt_day = 6, dt_hour = 0, dt_minute = 20,
              dt_weekday = 6 \<rparr>,
           [(''load_p'', [79]), (''load_q'', [9]), (''prod_p'', [81]), (''prod_v'', [142])])] \<rparr>"

section \<open>Rewards\<close>

text \<open>
  A floating-point scalar: a finite value, idealised as a real (rounding and signed zeros
  are left out), an infinity, or not-a-number. NumPy's division of scalars does not
  raise on a zero divisor: it gives an infinity, or not-a-number for \<open>0 / 0\<close>.
\<close>

datatype npfloat = Fin real | PInf | NInf | NaN

definition inf_of_sign :: "real \<Rightarrow> npfloat" where
  "inf_of_sign a = (if 0 < a then PInf else if a < 0 then NInf else NaN)"

definition fl_divide :: "real \<Rightarrow> real \<Rightarrow> npfloat" where
  "fl_divide x y = (if y = 0 then inf_of_sign x else Fin (x / y))"



text \<open>
  What a reward's \<^verbatim>\<open>__call__\<close> returns: a float (a Python float or a NumPy floating
  scalar), a Python integer, a dictionary of integer arrays, or an array of floats.
\<close>

datatype retval =
    PyFloat npfloat | PyInt int | PyDict "(string \<times> int list) list" | PyArray "npfloat list"



text \<open>The two attributes of an action that a reward of the repository reads.\<close>

record action =
  set_bus :: "int list"
  set_line_status :: "int list"

text \<open>
  A NumPy value that is a scalar or a one-dimensional array, and the product
  \<^verbatim>\<open>a * v\<close> of an array with it: a scalar and an array of one element are broadcast,
  arrays of different lengths raise \<^verbatim>\<open>ValueError\<close>.
\<close>

datatype npval = NpScalar real | NpArray "real list"


text \<open>
  What the rewards read from the environment. \<^verbatim>\<open>env.get_obs()\<close>,
  \<^verbatim>\<open>env._load_difference()\<close>, \<^verbatim>\<open>env._p_difference()\<close> and
  \<^verbatim>\<open>env.backend.get_num_islands()\<close> are calls into classes that are not among the
  sources: the fields hold their results (for \<^verbatim>\<open>_p_difference\<close>, whose result enters
  arithmetic, the exception it raises or the value it returns).
\<close>

record reward_env =
  n_line :: nat
  current_obs :: observation
  get_obs :: observation
  new_load :: "real list option"
  load_difference :: "real list"
  p_difference :: "exn + npval"
  gen_cost_per_MW :: "real list"
  reward_backend :: backend_report
  get_num_islands :: retval







text \<open>
  \<^verbatim>\<open>GenDiffMetric.__call__\<close>: the integer \<open>0\<close>, or \<^verbatim>\<open>env._p_difference()\<close>
  divided by the total generation that the backend reports; the quotient of an array is
  an array.
\<close>

definition GenDiffMetric_call ::
    "action \<Rightarrow> reward_env \<Rightarrow> bool \<Rightarrow> bool \<Rightarrow> bool \<Rightarrow> bool \<Rightarrow> exn + retval" where
  "GenDiffMetric_call action env has_error is_done is_illegal is_ambiguous =
     (if is_illegal \<or> is_done then Inr (PyInt 0)
      else
        (case generators_info (reward_backend env) of (prod_p, prod_q, prod_v) \<Rightarrow>
           (case p_difference env of
              Inl e \<Rightarrow> Inl e
            | Inr (NpScalar x) \<Rightarrow> Inr (PyFloat (fl_divide x (sum_list prod_p)))
            | Inr (NpArray xs) \<Rightarrow>
                Inr (PyArray (map (\<lambda>x. fl_divide x (sum_list prod_p)) xs)))))"



text \<open>
  An environment on the grid of \<open>sample_backend\<close>, with no scheduled load and a
  generation that is 2 MW away from its schedule.
\<close>

definition sample_reward_env :: reward_env where
  "sample_reward_env =
     \<lparr> n_line = 2,
       current_obs = blank_observation 2 2 1 1 0 6,
       get_obs = (blank_observation 2 2 1 1 0 6)\<lparr>line_status := [True, False]\<rparr>,
       new_load = None,
       load_difference = [0],
       p_difference = Inr (NpScalar 2),
       gen_cost_per_MW = [40],
       reward_backend = sample_backend,
       get_num_islands = PyInt 1 \<rparr>"

definition sample_action :: action where
  "sample_action = \<lparr>set_bus = [0, 2], set_line_status = [- 1]\<rparr>"

section \<open>The step engine\<close>

text \<open>
  Modelled from the spec: \<^verbatim>\<open>BaseEnv\<close>, which holds the state of the environment and
  its \<^verbatim>\<open>step\<close>, is not among the sources. The EnvironmentState of section 3: what the
  observation reads from the environment and its backend (topology vector, line status,
  cooldown counters, step counter, time stamp), the opponent and attention budgets, and
  the terminal flag.
\<close>

record engine_state =
  grid :: env_state
  opponent_budget :: real
  attention_budget :: real
  terminal :: bool

text \<open>
  Modelled from the spec: the flags of the \<^verbatim>\<open>info\<close> dictionary that a step returns
  (section 6).
\<close>

record info =
  info_is_illegal :: bool
  info_is_ambiguous :: bool
  info_has_error :: bool

text \<open>
  Modelled from the spec: what the engine delegates, as parameters. \<open>run_step\<close> is the
  work of steps 1 to 8 of section 4.1 on a state (legality filter, chronics, opponent,
  backend solve, cascading failures, cooldowns and budgets) with the reward of step 9;
  \<open>run_forecast_step\<close> is the same against forecast data. \<open>run_reset\<close> is what
  \<^verbatim>\<open>Environment.reset\<close> and \<^verbatim>\<open>reset_grid\<close> do to the state before the first
  step of the new episode (next chronics, maintenance, redispatching, timings, backend
  reloaded), \<open>finish_reset\<close> what they do after it (timings, opponent, rewards), and
  \<open>do_nothing\<close> is the empty action of that step. The last three fields are the
  constructor of an observation, \<^verbatim>\<open>BaseObservation.reset\<close>, and whether forecasts
  are enabled.
\<close>

record 'a collaborators =
  run_step :: "engine_state \<Rightarrow> 'a \<Rightarrow> engine_state \<times> real \<times> info"
  run_forecast_step :: "engine_state \<Rightarrow> 'a \<Rightarrow> engine_state \<times> real \<times> info"
  run_reset :: "engine_state \<Rightarrow> engine_state"
  finish_reset :: "engine_state \<Rightarrow> engine_state"
  do_nothing :: 'a
  new_observation :: observation
  obs_reset :: "observation \<Rightarrow> observation"
  use_forecast :: bool

text \<open>
  Modelled from the spec: observations are objects the caller keeps a reference to, so
  they live in a store, and the engine allocates a new reference for each. With its
  snapshot an observation keeps the copy of the state it was derived from, the sandbox of
  "simulate" (section 4.4, and the design note on the arena-style clone).
\<close>

record stored_observation =
  snapshot :: observation
  obs_env :: engine_state

record engine =
  state :: engine_state
  obs_store :: "nat \<rightharpoonup> stored_observation"
  next_ref :: nat

text \<open>
  Modelled from the spec: the state error of a step after the end of the episode
  (section 8). \<open>AssemblyError\<close> stands for an exception of \<^verbatim>\<open>update\<close>, and
  \<open>DivergesAtIteration0\<close> for the \<^verbatim>\<open>Grid2OpException\<close> of \<^verbatim>\<open>reset_grid\<close>
  (lines 690-692).
\<close>

datatype engine_error = StateError | AssemblyError | DivergesAtIteration0

type_synonym step_result = "nat \<times> real \<times> bool \<times> info"

text \<open>
  Modelled from the spec: \<^verbatim>\<open>BaseEnv.get_obs\<close> and the observation space it calls are
  not among the sources. "A new Observation is built every step" (section 3): a new
  object is constructed, filled by \<^verbatim>\<open>EssentialObservation.update\<close> and stored under a
  new reference.
\<close>

definition engine_get_obs ::
    "'a collaborators \<Rightarrow> engine_state \<Rightarrow> engine \<Rightarrow> (nat \<times> engine) option" where
  "engine_get_obs c st e =
     (case update (obs_reset c) (grid st) (use_forecast c) (new_observation c) of
        None \<Rightarrow> None
      | Some (obs, cs) \<Rightarrow>
          Some (next_ref e,
                e\<lparr> obs_store := (obs_store e)(next_ref e \<mapsto> \<lparr>snapshot = obs, obs_env = st\<rparr>),
                   next_ref := Suc (next_ref e) \<rparr>))"

text \<open>
  Modelled from the spec: \<^verbatim>\<open>BaseEnv.step\<close> is not among the sources. A step in the
  terminal state fails with a state error and changes nothing (section 8, divergence
  terminality); otherwise the state is replaced by the outcome of the step and the
  machine returns the new observation, the reward, the terminal flag and the info
  (section 4.1, steps 9 and 10).
\<close>

definition engine_step ::
    "'a collaborators \<Rightarrow> engine \<Rightarrow> 'a \<Rightarrow> (engine_error + step_result) \<times> engine" where
  "engine_step c e a =
     (if terminal (state e) then (Inl StateError, e)
      else
        (case run_step c (state e) a of (st', reward, diag) \<Rightarrow>
           (case engine_get_obs c st' (e\<lparr>state := st'\<rparr>) of
              None \<Rightarrow> (Inl AssemblyError, e\<lparr>state := st'\<rparr>)
            | Some (r, e') \<Rightarrow> (Inr (r, reward, terminal st', diag), e'))))"

text \<open>
  Modelled from the spec: \<^verbatim>\<open>BaseEnv.reset\<close>, which \<^verbatim>\<open>Environment.reset\<close> calls first,
  is not among the sources. "Reset transitions the machine back to an initial READY
  state" (section 4.1). The rest follows \<^verbatim>\<open>Environment.reset\<close> (lines 709-766) and
  \<^verbatim>\<open>reset_grid\<close> (lines 681-692): the state is prepared, \<^verbatim>\<open>reset_grid\<close> runs one
  step with the empty action and raises when that step ends the episode, the state is
  completed, and the method returns \<^verbatim>\<open>self.get_obs()\<close>.
\<close>

definition engine_reset ::
    "'a collaborators \<Rightarrow> engine \<Rightarrow> (engine_error + nat) \<times> engine" where
  "engine_reset c e =
     (let e1 = e\<lparr>state := (run_reset c (state e))\<lparr>terminal := False\<rparr>\<rparr> in
      case engine_step c e1 (do_nothing c) of
        (Inl err, e2) \<Rightarrow> (Inl err, e2)
      | (Inr (r0, reward, fail_to_start, diag), e2) \<Rightarrow>
          if fail_to_start then (Inl DivergesAtIteration0, e2)
          else
            let e3 = e2\<lparr>state := (finish_reset c (state e2))\<lparr>terminal := False\<rparr>\<rparr> in
            (case engine_get_obs c (state e3) e3 of
               None \<Rightarrow> (Inl AssemblyError, e3)
             | Some (r, e4) \<Rightarrow> (Inr r, e4)))"

text \<open>
  Modelled from the spec: \<^verbatim>\<open>BaseObservation.simulate\<close> is not among the sources. It
  applies the action to the observation's copy of the state, executes one step against
  forecast data, assembles the observation of the outcome and discards the copy
  (section 4.4).
\<close>

definition obs_simulate ::
    "'a collaborators \<Rightarrow> stored_observation \<Rightarrow> engine \<Rightarrow> 'a
       \<Rightarrow> (engine_error + step_result) \<times> engine" where
  "obs_simulate c self e a =
     (case run_forecast_step c (obs_env self) a of (sandbox', reward, diag) \<Rightarrow>
        (case engine_get_obs c sandbox' e of
           None \<Rightarrow> (Inl AssemblyError, e)
         | Some (r, e') \<Rightarrow> (Inr (r, reward, terminal sandbox', diag), e')))"

text \<open>
  \<^verbatim>\<open>Environment.simulate\<close> (lines 514-534):
  \<^verbatim>\<open>return self.get_obs().simulate(action)\<close>.
\<close>

definition simulate ::
    "'a collaborators \<Rightarrow> engine \<Rightarrow> 'a \<Rightarrow> (engine_error + step_result) \<times> engine" where
  "simulate c e a =
     (case engine_get_obs c (state e) e of
        None \<Rightarrow> (Inl AssemblyError, e)
      | Some (r0, e0) \<Rightarrow>
          (case obs_store e0 r0 of
             None \<Rightarrow> (Inl AssemblyError, e0)
           | Some obs \<Rightarrow> obs_simulate c obs e0 a))"

text \<open>Sequences of calls on one engine, with the results in order.\<close>

fun simulate_all ::
    "'a collaborators \<Rightarrow> engine \<Rightarrow> 'a list \<Rightarrow> (engine_error + step_result) list \<times> engine" where
  "simulate_all c e [] = ([], e)"
| "simulate_all c e (a # as) =
     (case simulate c e a of (r, e') \<Rightarrow>
        (case simulate_all c e' as of (rs, e'') \<Rightarrow> (r # rs, e'')))"

fun step_all ::
    "'a collaborators \<Rightarrow> engine \<Rightarrow> 'a list \<Rightarrow> (engine_error + step_result) list \<times> engine" where
  "step_all c e [] = ([], e)"
| "step_all c e (a # as) =
     (case engine_step c e a of (r, e') \<Rightarrow>
        (case step_all c e' as of (rs, e'') \<Rightarrow> (r # rs, e'')))"

text \<open>
  Modelled from the spec: the three calls of the engine's interface (section 6), the
  engine after each, and the reference to the observation that the call hands to its
  caller, if it returns one.
\<close>

datatype 'a call = Step 'a | Simulate 'a | Reset

fun engine_call :: "'a collaborators \<Rightarrow> engine \<Rightarrow> 'a call \<Rightarrow> engine" where
  "engine_call c e (Step a) = snd (engine_step c e a)"
| "engine_call c e (Simulate a) = snd (simulate c e a)"
| "engine_call c e Reset = snd (engine_reset c e)"

fun returned_observation :: "'a collaborators \<Rightarrow> engine \<Rightarrow> 'a call \<Rightarrow> nat option" where
  "returned_observation c e (Step a) =
     (case fst (engine_step c e a) of Inl err \<Rightarrow> None | Inr (r, reward, d, diag) \<Rightarrow> Some r)"
| "returned_observation c e (Simulate a) =
     (case fst (simulate c e a) of Inl err \<Rightarrow> None | Inr (r, reward, d, diag) \<Rightarrow> Some r)"
| "returned_observation c e Reset =
     (case fst (engine_reset c e) of Inl err \<Rightarrow> None | Inr r \<Rightarrow> Some r)"

definition engine_calls :: "'a collaborators \<Rightarrow> engine \<Rightarrow> 'a call list \<Rightarrow> engine" where
  "engine_calls c e cs = fold (\<lambda>x e. engine_call c e x) cs e"

text \<open>
  Two relations on engines for the proofs about the store of observations: the
  references in use are those below \<open>next_ref\<close>; and a later engine extends an earlier
  one when every reference the earlier one had allocated, and every reference the later
  one has not allocated, holds what it held.
\<close>

definition store_closed :: "engine \<Rightarrow> bool" where
  "store_closed e = (\<forall>r. next_ref e \<le> r \<longrightarrow> obs_store e r = None)"

definition extends :: "engine \<Rightarrow> engine \<Rightarrow> bool" where
  "extends e e' =
     (next_ref e \<le> next_ref e' \<and>
      (\<forall>r. r < next_ref e \<or> next_ref e' \<le> r \<longrightarrow> obs_store e' r = obs_store e r))"

text \<open>
  Modelled from the spec: the engine that the constructor leaves has handed out no
  observation yet.
\<close>

definition new_engine :: "engine_state \<Rightarrow> engine" where
  "new_engine st = \<lparr> state = st, obs_store = Map.empty, next_ref = 0 \<rparr>"

text \<open>
  A small instance: the action says whether the step diverges; a forecast step also
  spends one unit of the attention budget of the state it runs on.
\<close>

definition sample_collaborators :: "bool collaborators" where
  "sample_collaborators =
     \<lparr> run_step = (\<lambda>st diverges.
          (st\<lparr>terminal := diverges\<rparr>, if diverges then - 1 else 1,
           \<lparr>info_is_illegal = False, info_is_ambiguous = False, info_has_error = diverges\<rparr>)),
       run_forecast_step = (\<lambda>st diverges.
          (st\<lparr>terminal := diverges, attention_budget := attention_budget st - 1\<rparr>,
           if diverges then - 1 else 1,
           \<lparr>info_is_illegal = False, info_is_ambiguous = False, info_has_error = diverges\<rparr>)),
       run_reset = (\<lambda>st. st),
       finish_reset = (\<lambda>st. st),
       do_nothing = False,
       new_observation = blank_observation 2 2 1 1 0 6,
       obs_reset = (\<lambda>obs. obs),
       use_forecast = True \<rparr>"

definition sample_engine :: engine where
  "sample_engine =
     \<lparr> state = \<lparr> grid = sample_env, opponent_budget = 0, attention_budget = 3,
                 terminal = False \<rparr>,
       obs_store = Map.empty,
       next_ref = 0 \<rparr>"

section \<open>Properties of the construction\<close>

lemma priv_is_loaded_fold_bk_call [simp]:
  "priv_is_loaded (fold bk_call cs b) = priv_is_loaded b"
  by (induction cs arbitrary: b) (simp_all add: bk_call_def)

lemma init_backend_marks_loaded:
  "init_backend ft a = (Inr env, evs) \<Longrightarrow> is_loaded (self_backend env)"
  by (auto simp: init_backend_def Let_def is_loaded_def set_is_loaded_def bk_call_def
      split: if_splits pyval.splits)

text \<open>
  The environment that the constructor returns holds a loaded backend: handing the same
  instance to a second constructor call is the situation of the next theorem.
\<close>

lemma backend_reuse_after_construction:
  "init_backend ft a = (Inr env, evs) \<Longrightarrow>
   init_backend ft' (default_args ch (PyBackend (self_backend env)))
     = (Inl (EnvError same_backend_twice), [])"
  using init_backend_marks_loaded [of ft a env evs]
  by (simp add: init_backend_def default_args_def)

text \<open>
  C4. A backend instance that is already loaded makes the construction raise, and it does so
  eagerly: the list of events before the raise is empty, so neither a call that loads the
  grid nor the first step has happened. With a well-formed reward class the exception is
  the "same backend twice" \<^verbatim>\<open>EnvError\<close> (a malformed reward class is reported first,
  as a \<^verbatim>\<open>Grid2OpException\<close>). A backend instance that is not loaded never triggers
  that error.
\<close>

theorem loaded_backend_rejected_at_construction:
  "backend a = PyBackend b \<Longrightarrow>
     (is_loaded b \<longrightarrow>
        (\<exists>e. init_backend ft a = (Inl e, []) \<and> is_Grid2OpException e \<and>
             (isinstance_type (rewardClass a) \<and> issubclass (rewardClass a) BaseReward
                \<longrightarrow> e = EnvError same_backend_twice))) \<and>
     (\<not> is_loaded b \<longrightarrow> fst (init_backend ft a) \<noteq> Inl (EnvError same_backend_twice))"
  by (simp add: init_backend_def Let_def)

theorem loaded_backend_rejected_at_construction_witness:
  "init_backend False (default_args (PyObject [ChronicsHandler])
       (PyBackend \<lparr>priv_is_loaded = True, calls = [B_load_grid]\<rparr>))
     = (Inl (EnvError same_backend_twice), []) \<and>
   fst (init_backend False (default_args (PyObject [ChronicsHandler])
       (PyBackend \<lparr>priv_is_loaded = False, calls = []\<rparr>))) \<noteq> Inl (EnvError same_backend_twice)"
  using loaded_backend_rejected_at_construction
      [of "default_args (PyObject [ChronicsHandler])
             (PyBackend \<lparr>priv_is_loaded = True, calls = [B_load_grid]\<rparr>)"
          "\<lparr>priv_is_loaded = True, calls = [B_load_grid]\<rparr>" False]
    loaded_backend_rejected_at_construction
      [of "default_args (PyObject [ChronicsHandler])
             (PyBackend \<lparr>priv_is_loaded = False, calls = []\<rparr>)"
          "\<lparr>priv_is_loaded = False, calls = []\<rparr>" False]
  by (auto simp: default_args_def is_loaded_def)



subsection \<open>get_kwargs\<close>

lemma dom_get_kwargs:
  "dom (get_kwargs cp self True) \<subseteq> set parameter_names"
  by (simp add: get_kwargs_def Let_def parameter_names_def)

lemma get_kwargs_required:
  "get_kwargs cp self True ''init_grid_path'' = Some PyOpaque"
  "get_kwargs cp self True ''chronics_handler'' = Some (self_chronics_handler self)"
  "get_kwargs cp self True ''backend'' =
     Some (PyBackend ((cp (self_backend self))\<lparr>priv_is_loaded := False\<rparr>))"
  "get_kwargs cp self True ''parameters'' = Some PyOpaque"
  by (simp_all add: get_kwargs_def Let_def)

text \<open>
  C10. With \<^verbatim>\<open>with_backend=True\<close> the entry \<^verbatim>\<open>"backend"\<close> of the dictionary is the
  copy of the environment's backend with the loaded flag cleared, whatever the copy
  carried over, and the construction of an environment from the dictionary does not end
  with the "same backend twice" error.
\<close>

theorem get_kwargs_backend_not_loaded:
  "get_kwargs cp self True ''backend'' =
      Some (PyBackend ((cp (self_backend self))\<lparr>priv_is_loaded := False\<rparr>)) \<and>
   \<not> is_loaded ((cp (self_backend self))\<lparr>priv_is_loaded := False\<rparr>) \<and>
   fst (Environment_new ft (get_kwargs cp self True)) \<noteq> Inl (EnvError same_backend_twice)"
  by (simp add: Environment_new_def dom_get_kwargs get_kwargs_required init_backend_def
        Let_def is_loaded_def)

lemma init_backend_Inr:
  assumes "init_backend ft0 a = (Inr self, evs0)"
  shows "isinstance_type (self_rewardClass self) \<and> issubclass (self_rewardClass self) BaseReward \<and>
     isinstance_type (self_legalActClass self) \<and> issubclass (self_legalActClass self) BaseRules \<and>
     isinstance_type (self_actionClass_orig self) \<and>
     issubclass (self_actionClass_orig self) BaseAction \<and>
     isinstance_type (self_observationClass_orig self) \<and>
     issubclass (self_observationClass_orig self) BaseObservation \<and>
     isinstance (self_chronics_handler self) ChronicsHandler \<and>
     isinstance_type (self_voltagecontrolerClass self) \<and>
     issubclass (self_voltagecontrolerClass self) BaseVoltageController"
  using assms
  by (auto simp: init_backend_def Let_def split: if_splits pyval.splits)

lemma get_kwargs_classes:
  "get_kwargs cp self True ''actionClass'' = Some (self_actionClass_orig self)"
  "get_kwargs cp self True ''observationClass'' = Some (self_observationClass_orig self)"
  "get_kwargs cp self True ''rewardClass'' = Some (self_rewardClass self)"
  "get_kwargs cp self True ''legalActClass'' = Some (self_legalActClass self)"
  "get_kwargs cp self True ''voltagecontrolerClass'' = Some (self_voltagecontrolerClass self)"
  by (simp_all add: get_kwargs_def Let_def)

text \<open>
  The dictionary of an environment that was built by the constructor passes every check
  of a second construction, which goes on to its first step.
\<close>

lemma environment_rebuilt_reaches_first_step:
  assumes "init_backend ft0 a = (Inr self, evs0)"
  shows "Env_step \<in> set (snd (Environment_new ft (get_kwargs cp self True)))"
  using init_backend_Inr [OF assms]
  by (simp add: Environment_new_def dom_get_kwargs get_kwargs_required get_kwargs_classes
      kw_default_def init_backend_def Let_def is_loaded_def)

subsection \<open>Episode length\<close>

lemma sint_dt_int:
  "- (2 ^ 31) \<le> v \<Longrightarrow> v < 2 ^ 31 \<Longrightarrow> sint (word_of_int v :: 32 word) = v"
  by (simp add: sint_sbintrunc' signed_take_bit_int_eq_self)

text \<open>
  C9, as stated, fails outside the 32-bit range. The chronics handler reports the
  nonnegative value \<open>2\<^sup>3\<^sup>1\<close>; the conversion wraps it to a negative number and the
  method answers \<open>2\<^sup>3\<^sup>1 - 1\<close>, not the reported value. The negative value
  \<open>5 - 2\<^sup>3\<^sup>2\<close> wraps to \<open>5\<close>, which is returned instead of the maximum.
\<close>

theorem max_episode_duration_out_of_range:
  "(0::int) \<le> 2147483648 \<and> max_episode_duration 2147483648 = Inr 2147483647 \<and>
   sint (2147483647 :: 32 word) \<noteq> 2147483648 \<and>
   (-4294967291 :: int) < 0 \<and> max_episode_duration (-4294967291) = Inr 5"
  by (simp add: max_episode_duration_def dt_int_def iinfo_dt_int_max_def)

text \<open>
  C9, amended: for a reported value within the range of a 32-bit signed integer, the
  method returns that value when it is nonnegative and \<open>2147483647\<close>, the maximum
  32-bit integer, when it is negative.
\<close>

theorem max_episode_duration_in_range:
  "- (2 ^ 31) \<le> v \<Longrightarrow> v < 2 ^ 31 \<Longrightarrow>
   \<exists>w. max_episode_duration v = Inr w \<and> sint w = (if v < 0 then 2147483647 else v)"
  by (simp add: max_episode_duration_def dt_int_def iinfo_dt_int_max_def sint_dt_int)

theorem max_episode_duration_in_range_witness:
  "max_episode_duration 288 = Inr 288 \<and> max_episode_duration (-1) = Inr 2147483647"
  using max_episode_duration_in_range [of 288] max_episode_duration_in_range [of "-1"]
  by (simp add: max_episode_duration_def dt_int_def iinfo_dt_int_max_def)

subsection \<open>Observation assembly\<close>

lemma map_times_one [simp]: "map ((*) (1::real)) xs = xs"
  by (induction xs) simp_all

lemma update_forecast_rows:
  "forecasted_inj (update_forecast env s) =
     (get_time_stamp s, [(''load_p'', load_p s), (''load_q'', load_q s),
                         (''prod_p'', gen_p s), (''prod_v'', gen_v s)]) # chronics_forecasts env"
  "forecasted_grid (update_forecast env s) = replicate (Suc (length (chronics_forecasts env))) None"
  "load_p (update_forecast env s) = load_p s"
  "load_q (update_forecast env s) = load_q s"
  "gen_p (update_forecast env s) = gen_p s"
  "gen_v (update_forecast env s) = gen_v s"
  "get_time_stamp (update_forecast env s) = get_time_stamp s"
  by (simp_all add: update_forecast_def Let_def get_time_stamp_def map_replicate_const)

lemma update_flow_and_cooldown_keeps:
  assumes "update_flow_and_cooldown env s = Some s'"
  shows "forecasted_inj s' = forecasted_inj s" "forecasted_grid s' = forecasted_grid s"
    "load_p s' = load_p s" "load_q s' = load_q s" "gen_p s' = gen_p s" "gen_v s' = gen_v s"
    "get_time_stamp s' = get_time_stamp s"
  using assms
  by (auto simp: update_flow_and_cooldown_def get_time_stamp_def split: bind_splits)

lemma update_theta_keeps:
  assumes "update_theta env s = Some s'"
  shows "forecasted_inj s' = forecasted_inj s" "forecasted_grid s' = forecasted_grid s"
    "load_p s' = load_p s" "load_q s' = load_q s" "gen_p s' = gen_p s" "gen_v s' = gen_v s"
    "get_time_stamp s' = get_time_stamp s"
  using assms
  by (auto simp: update_theta_def get_time_stamp_def split: bind_splits if_splits prod.splits)

lemma runpf_not_called: "B_runpf \<notin> set (update_backend_calls env)"
  by (simp add: update_backend_calls_def)

text \<open>
  C7. When \<^verbatim>\<open>update\<close> is called with forecasts enabled and returns, the forecast field
  of the observation is the current injection row (the time stamp of the observation with
  its own \<^verbatim>\<open>load_p\<close>, \<^verbatim>\<open>load_q\<close>, \<^verbatim>\<open>gen_p\<close> and \<^verbatim>\<open>gen_v\<close>) followed by the
  rows of the chronics' \<^verbatim>\<open>forecasts()\<close>, unchanged. The forecasted grids are all
  \<^verbatim>\<open>None\<close>, one for each row, and the solve (\<^verbatim>\<open>runpf\<close>) is not among the backend
  methods called.
\<close>

theorem forecast_rows_copied_without_solve:
  assumes "update reset_obs env True self0 = Some (obs, cs)"
  shows "forecasted_inj obs =
           (get_time_stamp obs, [(''load_p'', load_p obs), (''load_q'', load_q obs),
                                 (''prod_p'', gen_p obs), (''prod_v'', gen_v obs)])
           # chronics_forecasts env \<and>
         forecasted_grid obs = replicate (Suc (length (chronics_forecasts env))) None \<and>
         B_runpf \<notin> set cs"
proof -
  from assms obtain s6 s8 where
    s8: "update_flow_and_cooldown env (update_forecast env s6) = Some s8" and
    s9: "update_theta env s8 = Some obs" and
    cs: "cs = update_backend_calls env"
    by (auto simp: update_def Let_def split: bind_splits)
  note k8 = update_flow_and_cooldown_keeps [OF s8]
  note k9 = update_theta_keeps [OF s9]
  show ?thesis
    by (simp add: k8 k9 update_forecast_rows cs runpf_not_called)
qed

lemma sample_update:
  "\<exists>obs. update (\<lambda>s. s) sample_env True (blank_observation 2 2 1 1 0 6)
      = Some (obs, [B_get_line_status, B_get_topo_vect, B_generators_info, B_loads_info,
                    B_lines_or_info, B_lines_ex_info, B_get_relative_flow])"
  by (simp add: update_def update_counter_and_time_def update_topology_def
      update_generators_def update_loads_def update_lines_or_def update_lines_ex_def
      update_forecast_def update_flow_and_cooldown_def update_theta_def update_backend_calls_def
      max_episode_duration_def dt_int_def sample_env_def sample_backend_def np_assign_def
      blank_observation_def Let_def)

theorem forecast_rows_copied_without_solve_witness:
  "\<exists>obs cs. update (\<lambda>s. s) sample_env True (blank_observation 2 2 1 1 0 6) = Some (obs, cs) \<and>
     forecasted_inj obs =
       [(\<lparr> dt_year = 2019, dt_month = 1, dt_day = 6, dt_hour = 0, dt_minute = 15,
            dt_weekday = 6 \<rparr>,
         [(''load_p'', [78]), (''load_q'', [9]), (''prod_p'', [80]), (''prod_v'', [142])]),
        (\<lparr> dt_year = 2019, dt_month = 1, dt_day = 6, dt_hour = 0, dt_minute = 20,
            dt_weekday = 6 \<rparr>,
         [(''load_p'', [79]), (''load_q'', [9]), (''prod_p'', [81]), (''prod_v'', [142])])] \<and>
     forecasted_grid obs = [None, None] \<and> B_runpf \<notin> set cs"
proof -
  obtain obs cs where
    u: "update (\<lambda>s. s) sample_env True (blank_observation 2 2 1 1 0 6) = Some (obs, cs)"
    using sample_update by blast
  have obs: "load_p obs = [78] \<and> load_q obs = [9] \<and> gen_p obs = [80] \<and> gen_v obs = [142] \<and>
      get_time_stamp obs = \<lparr> dt_year = 2019, dt_month = 1, dt_day = 6, dt_hour = 0,
         dt_minute = 15, dt_weekday = 6 \<rparr>"
    using u
    by (auto simp add: update_def update_counter_and_time_def update_topology_def
      update_generators_def update_loads_def update_lines_or_def update_lines_ex_def
      update_forecast_def update_flow_and_cooldown_def update_theta_def update_backend_calls_def
      max_episode_duration_def dt_int_def sample_env_def sample_backend_def np_assign_def
      blank_observation_def Let_def get_time_stamp_def)
  from forecast_rows_copied_without_solve [OF u] obs u show ?thesis
    by (simp add: sample_env_def)
qed

subsection \<open>Rewards\<close>











text \<open>
  With an array for \<^verbatim>\<open>env._p_difference()\<close> (one entry for each generator, as the
  product with the generators' costs in \<^verbatim>\<open>ResilienceReward\<close> suggests),
  \<^verbatim>\<open>GenDiffMetric\<close> returns an array.
\<close>

lemma GenDiffMetric_array:
  "GenDiffMetric_call sample_action (sample_reward_env\<lparr>p_difference := Inr (NpArray [2])\<rparr>)
      False False False False = Inr (PyArray [Fin (1 / 40)])"
  by (simp add: GenDiffMetric_call_def sample_reward_env_def sample_backend_def fl_divide_def)

subsection \<open>The step engine\<close>


lemma engine_get_obs_Some:
  "engine_get_obs c st e = Some (r, e') \<Longrightarrow>
     r = next_ref e \<and> state e' = state e \<and> next_ref e' = Suc (next_ref e) \<and>
     (\<exists>obs. obs_store e' = (obs_store e)(next_ref e \<mapsto> \<lparr>snapshot = obs, obs_env = st\<rparr>))"
  by (auto simp: engine_get_obs_def split: option.splits)

lemma simulate_state: "state (snd (simulate c e a)) = state e"
  by (auto simp: simulate_def obs_simulate_def split: option.splits prod.splits
      dest!: engine_get_obs_Some)

lemma simulate_not_StateError: "fst (simulate c e a) \<noteq> Inl StateError"
  by (auto simp: simulate_def obs_simulate_def split: option.splits prod.splits)

lemma simulate_result:
  "simulate c e a = (Inr (r, reward, d, diag), e') \<Longrightarrow> obs_store e' r \<noteq> None"
  by (auto simp: simulate_def obs_simulate_def split: option.splits prod.splits
      dest!: engine_get_obs_Some)

text \<open>
  When the two observation assemblies of a simulation succeed (of the real state, and of
  the outcome on the copy), the call returns a tuple of the shape of a step's result; its
  flag is the terminal flag of the copy, not of the real state.
\<close>

lemma simulate_returns_step_shape:
  assumes "update (obs_reset c) (grid (state e)) (use_forecast c) (new_observation c) \<noteq> None"
    and "update (obs_reset c) (grid (fst (run_forecast_step c (state e) a))) (use_forecast c)
           (new_observation c) \<noteq> None"
  shows "\<exists>r reward diag e'.
           simulate c e a =
             (Inr (r, reward, terminal (fst (run_forecast_step c (state e) a)), diag), e')
           \<and> r < next_ref e' \<and> obs_store e' r \<noteq> None"
  using assms
  by (auto simp: simulate_def obs_simulate_def engine_get_obs_def
      split: option.splits prod.splits)

text \<open>
  C1. However often \<^verbatim>\<open>simulate\<close> is called, and with whatever actions, the state of the
  real engine (topology vector, line and substation cooldown counters, opponent and
  attention budgets, step counter, terminal flag) is exactly the state before the calls.
  Each call returns a result of the shape of a step's (observation, reward, done, info),
  or the exception of the observation assembly, and never a state error.
\<close>

theorem simulate_leaves_state:
  "state (snd (simulate_all c e as)) = state e \<and>
   length (fst (simulate_all c e as)) = length as \<and>
   Inl StateError \<notin> set (fst (simulate_all c e as))"
proof (induction as arbitrary: e)
  case Nil
  show ?case by simp
next
  case (Cons a as)
  obtain r e' where s: "simulate c e a = (r, e')" by (cases "simulate c e a")
  obtain rs e'' where ss: "simulate_all c e' as = (rs, e'')" by (cases "simulate_all c e' as")
  have "state e' = state e" using simulate_state [of c e a] s by simp
  moreover have "r \<noteq> Inl StateError" using simulate_not_StateError [of c e a] s by simp
  ultimately show ?case using Cons.IH [of e'] s ss by auto
qed

lemma step_when_done: "terminal (state e) \<Longrightarrow> engine_step c e a = (Inl StateError, e)"
  by (simp add: engine_step_def)

lemma step_all_when_done:
  "terminal (state e) \<Longrightarrow> step_all c e as = (replicate (length as) (Inl StateError), e)"
  by (induction as) (simp_all add: step_when_done)

lemma step_done_state:
  "engine_step c e a = (Inr (r, reward, d, diag), e') \<Longrightarrow> terminal (state e') = d"
  by (auto simp: engine_step_def split: if_splits prod.splits option.splits
      dest!: engine_get_obs_Some)

text \<open>
  C2. Once a step has returned \<^verbatim>\<open>done=True\<close>, every later step on the same engine,
  for every sequence of actions and with no reset in between, fails with the state error
  and leaves the engine as it was: no further step is executed.
\<close>

theorem no_step_after_done:
  assumes "engine_step c e a = (Inr (r, reward, True, diag), e')"
  shows "step_all c e' as = (replicate (length as) (Inl StateError), e')"
  using step_done_state [OF assms] by (simp add: step_all_when_done)

text \<open>A reset leaves the terminal state: the step after it is not refused.\<close>

lemma step_after_reset:
  assumes "engine_reset c e = (Inr r, e')"
  shows "fst (engine_step c e' a) \<noteq> Inl StateError"
proof -
  have "\<not> terminal (state e')"
    using assms
    by (auto simp: engine_reset_def Let_def split: sum.splits prod.splits if_splits
        option.splits dest!: engine_get_obs_Some)
  then show ?thesis
    by (auto simp: engine_step_def split: prod.splits option.splits)
qed

lemma extends_refl [simp]: "extends e e"
  by (simp add: extends_def)

lemma extends_trans: "extends e e' \<Longrightarrow> extends e' e'' \<Longrightarrow> extends e e''"
  by (auto simp: extends_def)

lemma extends_state [simp]: "extends e (e\<lparr>state := st\<rparr>)"
  by (simp add: extends_def)

lemma extends_closed: "extends e e' \<Longrightarrow> store_closed e \<Longrightarrow> store_closed e'"
  by (auto simp: extends_def store_closed_def)

lemma engine_get_obs_extends:
  "engine_get_obs c st e = Some (r, e') \<Longrightarrow>
     extends e e' \<and> r = next_ref e \<and> r < next_ref e' \<and> obs_store e' r \<noteq> None"
  by (auto simp: extends_def dest!: engine_get_obs_Some)

lemma engine_step_extends: "engine_step c e a = (res, e') \<Longrightarrow> extends e e'"
  by (auto simp: engine_step_def split: if_splits prod.splits option.splits
      dest!: engine_get_obs_extends intro: extends_trans [OF extends_state])

lemma step_new_observation:
  "engine_step c e a = (Inr (r, reward, d, diag), e') \<Longrightarrow>
     r = next_ref e \<and> r < next_ref e' \<and> obs_store e' r \<noteq> None"
  by (auto simp: engine_step_def split: if_splits prod.splits option.splits
      dest!: engine_get_obs_Some)

lemma simulate_extends: "simulate c e a = (res, e') \<Longrightarrow> extends e e'"
  by (auto simp: simulate_def obs_simulate_def split: prod.splits option.splits
      dest!: engine_get_obs_extends intro: extends_trans)

lemma simulate_new_observation:
  "simulate c e a = (Inr (r, reward, d, diag), e') \<Longrightarrow>
     next_ref e \<le> r \<and> r < next_ref e' \<and> obs_store e' r \<noteq> None"
  by (auto simp: simulate_def obs_simulate_def split: prod.splits option.splits
      dest!: engine_get_obs_Some)

lemma engine_reset_extends:
  assumes "engine_reset c e = (res, e')"
  shows "extends e e'"
proof -
  let ?e1 = "e\<lparr>state := (run_reset c (state e))\<lparr>terminal := False\<rparr>\<rparr>"
  obtain res2 e2 where s: "engine_step c ?e1 (do_nothing c) = (res2, e2)"
    by (cases "engine_step c ?e1 (do_nothing c)")
  have 1: "extends e e2"
    using engine_step_extends [OF s] extends_trans [OF extends_state] by blast
  let ?e3 = "e2\<lparr>state := (finish_reset c (state e2))\<lparr>terminal := False\<rparr>\<rparr>"
  have 3: "extends e ?e3" using 1 extends_trans [OF _ extends_state] by blast
  show ?thesis
    using assms s 1 3
    by (auto simp: engine_reset_def Let_def split: sum.splits prod.splits if_splits
        option.splits dest!: engine_get_obs_extends intro: extends_trans)
qed

lemma engine_reset_new_observation:
  assumes "engine_reset c e = (Inr r, e')"
  shows "next_ref e \<le> r \<and> r < next_ref e' \<and> obs_store e' r \<noteq> None"
proof -
  let ?e1 = "e\<lparr>state := (run_reset c (state e))\<lparr>terminal := False\<rparr>\<rparr>"
  obtain res2 e2 where s: "engine_step c ?e1 (do_nothing c) = (res2, e2)"
    by (cases "engine_step c ?e1 (do_nothing c)")
  have "next_ref e \<le> next_ref e2"
    using engine_step_extends [OF s] by (simp add: extends_def)
  then show ?thesis
    using assms s
    by (auto simp: engine_reset_def Let_def split: sum.splits prod.splits if_splits
        option.splits dest!: engine_get_obs_Some)
qed

lemma engine_call_extends: "extends e (engine_call c e x)"
proof (cases x)
  case (Step a)
  then show ?thesis using engine_step_extends [of c e a] by (cases "engine_step c e a") simp
next
  case (Simulate a)
  then show ?thesis using simulate_extends [of c e a] by (cases "simulate c e a") simp
next
  case Reset
  then show ?thesis using engine_reset_extends [of c e] by (cases "engine_reset c e") simp
qed

lemma engine_calls_extends: "extends e (engine_calls c e cs)"
  unfolding engine_calls_def
proof (induction cs arbitrary: e)
  case Nil
  show ?case by simp
next
  case (Cons x cs)
  show ?case using extends_trans [OF engine_call_extends [of e c x] Cons.IH] by simp
qed

lemma returned_observation_new:
  assumes "returned_observation c e x = Some r"
  shows "next_ref e \<le> r \<and> r < next_ref (engine_call c e x) \<and>
         obs_store (engine_call c e x) r \<noteq> None"
proof (cases x)
  case (Step a)
  obtain res e' where s: "engine_step c e a = (res, e')" by (cases "engine_step c e a")
  with assms Step obtain reward d diag where "res = Inr (r, reward, d, diag)"
    by (auto split: sum.splits)
  with s Step step_new_observation [of c e a r reward d diag e'] show ?thesis by auto
next
  case (Simulate a)
  obtain res e' where s: "simulate c e a = (res, e')" by (cases "simulate c e a")
  with assms Simulate obtain reward d diag where "res = Inr (r, reward, d, diag)"
    by (auto split: sum.splits)
  with s Simulate simulate_new_observation [of c e a r reward d diag e'] show ?thesis by auto
next
  case Reset
  obtain res e' where s: "engine_reset c e = (res, e')" by (cases "engine_reset c e")
  with assms Reset have "res = Inr r" by (auto split: sum.splits)
  with s Reset engine_reset_new_observation [of c e r e'] show ?thesis by auto
qed

lemma store_closed_new_engine: "store_closed (new_engine st)"
  by (simp add: store_closed_def new_engine_def)

text \<open>
  C8. Whatever calls an engine has served since its construction, the observation that
  the next call hands to its caller, be it a step, a simulation or a reset, is a new
  object: its reference held nothing before the call. And whatever steps, simulations
  and resets follow, the object under that reference, snapshot and sandbox, stays as the
  call left it.
\<close>

theorem observation_never_mutated:
  assumes "returned_observation c (engine_calls c (new_engine st) before) x = Some r"
  shows "obs_store (engine_calls c (new_engine st) before) r = None \<and>
         obs_store (engine_call c (engine_calls c (new_engine st) before) x) r \<noteq> None \<and>
         obs_store (engine_calls c (engine_call c (engine_calls c (new_engine st) before) x)
                      after) r
           = obs_store (engine_call c (engine_calls c (new_engine st) before) x) r"
proof -
  let ?e = "engine_calls c (new_engine st) before"
  let ?e' = "engine_call c ?e x"
  have "store_closed ?e"
    using extends_closed [OF engine_calls_extends store_closed_new_engine] .
  moreover note n = returned_observation_new [OF assms]
  ultimately have 1: "obs_store ?e r = None" by (simp add: store_closed_def)
  have "extends ?e' (engine_calls c ?e' after)" by (rule engine_calls_extends)
  with n have "obs_store (engine_calls c ?e' after) r = obs_store ?e' r"
    by (simp add: extends_def)
  with 1 n show ?thesis by simp
qed

lemma sample_get_obs:
  "\<exists>obs. engine_get_obs sample_collaborators st (e\<lparr>state := st\<rparr>) =
     Some (next_ref e, e\<lparr> state := st, obs_store := (obs_store e)(next_ref e \<mapsto> \<lparr>snapshot = obs, obs_env = st\<rparr>),
                   next_ref := Suc (next_ref e) \<rparr>)" if "grid st = sample_env"
  using sample_update that
  by (auto simp: engine_get_obs_def sample_collaborators_def)

lemma sample_step_diverges:
  "\<exists>e'. engine_step sample_collaborators sample_engine True =
     (Inr (0, - 1, True, \<lparr>info_is_illegal = False, info_is_ambiguous = False,
                          info_has_error = True\<rparr>), e')"
proof -
  let ?st = "(state sample_engine)\<lparr>terminal := True\<rparr>"
  have "grid ?st = sample_env" by (simp add: sample_engine_def)
  from sample_get_obs [OF this, of sample_engine] obtain e' where
    "engine_get_obs sample_collaborators ?st (sample_engine\<lparr>state := ?st\<rparr>) = Some (0, e')"
    by (auto simp: sample_engine_def)
  then show ?thesis
    by (simp add: engine_step_def sample_collaborators_def sample_engine_def)
qed

theorem no_step_after_done_witness:
  "\<exists>r reward diag e'.
     engine_step sample_collaborators sample_engine True = (Inr (r, reward, True, diag), e') \<and>
     step_all sample_collaborators e' [False, True, False]
       = ([Inl StateError, Inl StateError, Inl StateError], e')"
proof -
  from sample_step_diverges obtain e' where
    s: "engine_step sample_collaborators sample_engine True =
     (Inr (0, - 1, True, \<lparr>info_is_illegal = False, info_is_ambiguous = False,
                          info_has_error = True\<rparr>), e')" by blast
  from no_step_after_done [OF s, of "[False, True, False]"] s show ?thesis
    by (simp add: numeral_3_eq_3)
qed

lemma sample_step_returns:
  assumes "grid (state e) = sample_env" "\<not> terminal (state e)"
  shows "\<exists>r. returned_observation sample_collaborators e (Step a) = Some r"
proof -
  obtain obs cs where
    "update (\<lambda>s. s) sample_env True (blank_observation 2 2 1 1 0 6) = Some (obs, cs)"
    using sample_update by blast
  then show ?thesis using assms
    by (simp add: engine_step_def engine_get_obs_def sample_collaborators_def)
qed

theorem observation_never_mutated_witness:
  "\<exists>r. returned_observation sample_collaborators
          (engine_calls sample_collaborators (new_engine (state sample_engine))
             [Simulate False]) (Step True) = Some r \<and>
       obs_store (engine_calls sample_collaborators (new_engine (state sample_engine))
                    [Simulate False]) r = None \<and>
       obs_store (engine_call sample_collaborators
                    (engine_calls sample_collaborators (new_engine (state sample_engine))
                       [Simulate False]) (Step True)) r \<noteq> None \<and>
       obs_store (engine_calls sample_collaborators
                    (engine_call sample_collaborators
                       (engine_calls sample_collaborators (new_engine (state sample_engine))
                          [Simulate False]) (Step True))
                    [Simulate False, Reset, Step False, Step True]) r
         = obs_store (engine_call sample_collaborators
                    (engine_calls sample_collaborators (new_engine (state sample_engine))
                       [Simulate False]) (Step True)) r"
proof -
  let ?e = "engine_calls sample_collaborators (new_engine (state sample_engine))
              [Simulate False]"
  have "state ?e = state sample_engine"
    using simulate_state [of sample_collaborators "new_engine (state sample_engine)" False]
    by (simp add: engine_calls_def new_engine_def)
  then have "grid (state ?e) = sample_env" "\<not> terminal (state ?e)"
    by (simp_all add: sample_engine_def)
  from sample_step_returns [OF this, of True] obtain r where
    r: "returned_observation sample_collaborators ?e (Step True) = Some r" by blast
  from observation_never_mutated
         [OF r, of "[Simulate False, Reset, Step False, Step True]"] r
  show ?thesis by blast
qed

lemma sample_simulate_diverges:
  "\<exists>r e'. simulate sample_collaborators sample_engine True =
       (Inr (r, - 1, True, \<lparr>info_is_illegal = False, info_is_ambiguous = False,
                             info_has_error = True\<rparr>), e') \<and>
     terminal (state e') = False \<and> attention_budget (state e') = 3"
proof -
  let ?st = "state sample_engine"
  have g: "grid ?st = sample_env" by (simp add: sample_engine_def)
  from sample_get_obs [OF g, of sample_engine] obtain obs0 where
    o0: "engine_get_obs sample_collaborators ?st sample_engine =
       Some (0, sample_engine\<lparr> obs_store := [0 \<mapsto> \<lparr>snapshot = obs0, obs_env = ?st\<rparr>],
                              next_ref := Suc 0 \<rparr>)"
    by (auto simp: sample_engine_def)
  let ?e0 = "sample_engine\<lparr> obs_store := [0 \<mapsto> \<lparr>snapshot = obs0, obs_env = ?st\<rparr>],
                              next_ref := Suc 0 \<rparr>"
  let ?sb = "?st\<lparr>terminal := True, attention_budget := attention_budget ?st - 1\<rparr>"
  have "grid ?sb = sample_env" by (simp add: sample_engine_def)
  from sample_get_obs [OF this, of "?e0\<lparr>state := ?sb\<rparr>"] obtain e1 where
    o1: "engine_get_obs sample_collaborators ?sb (?e0\<lparr>state := ?sb\<rparr>) = Some (Suc 0, e1)"
    by auto
  have "engine_get_obs sample_collaborators ?sb ?e0 =
          Some (Suc 0, e1\<lparr>state := ?st\<rparr>)"
    using o1 by (auto simp: engine_get_obs_def split: option.splits)
  then show ?thesis using o0
    by (simp add: simulate_def obs_simulate_def sample_collaborators_def sample_engine_def)
qed

theorem simulate_leaves_state_witness:
  "state (snd (simulate_all sample_collaborators sample_engine [False, True, True]))
     = state sample_engine \<and>
   attention_budget
     (state (snd (simulate_all sample_collaborators sample_engine [False, True, True]))) = 3 \<and>
   length (fst (simulate_all sample_collaborators sample_engine [False, True, True])) = 3 \<and>
   (\<exists>r e'. simulate sample_collaborators sample_engine True =
       (Inr (r, - 1, True, \<lparr>info_is_illegal = False, info_is_ambiguous = False,
                             info_has_error = True\<rparr>), e'))"
  using simulate_leaves_state [of sample_collaborators sample_engine "[False, True, True]"]
    sample_simulate_diverges
  by (auto simp: sample_engine_def)

end
